theory Spec2Isabelle
  imports Complex_Main
begin

section \<open>The radial layout of graph-now: data model\<close>

text \<open>
  The component \<open>Graph\<close> (Graph.tsx) lays out one microservice, its gateways and their
  inbound and outbound endpoints on three concentric rings; \<open>utils.ts\<close> holds the geometry
  helpers and \<open>types.ts\<close> the data model. Array lengths and indices are \<open>nat\<close>. A field
  that the code reads through \<open>?.\<close> or tests for absence is an \<open>option\<close>.

  A JavaScript \<open>number\<close> is an IEEE 754 binary64 value. The layout and the collision resolver
  are embedded over \<open>real\<close>, with exact sums, products and comparisons: what is proved of
  them below (which branch is taken, which element is written, small integers) does not
  depend on rounding. The two helpers whose properties are about the very value a double
  has, \<open>distributeOnArc\<close> and \<open>getRectEdgePoint\<close>, are embedded over a model of binary64
  with its rounding, infinities, NaN and signed zero.
\<close>

subsection \<open>types.ts\<close>

text \<open>\<open>export type GatewayType = 'REST' | 'KAFKA' | 'SOAP'\<close>: a union of string literals.\<close>

definition GatewayType :: "string \<Rightarrow> bool" where
  "GatewayType s \<longleftrightarrow> s = ''REST'' \<or> s = ''KAFKA'' \<or> s = ''SOAP''"

text \<open>The exported object \<open>GatewayTypes\<close>, as its list of (key, value) entries.\<close>

definition GatewayTypes :: "(string \<times> string) list" where
  "GatewayTypes = [(''REST'', ''REST''), (''KAFKA'', ''KAFKA''), (''SOAP'', ''SOAP'')]"

record Gateway =
  type :: string
  name :: string
  outbound :: "string list option"
  inbound :: "string list option"

record Microservice =
  name :: string
  id :: string
  gateways :: "Gateway list option"

record Position =
  x :: real
  y :: real

record RectPosition = Position +
  angle :: real
  topLeft :: Position
  bottomRight :: Position

text \<open>The \<open>type\<close> of an \<open>ElementRef\<close>: \<open>'microservice' | 'gateway' | 'inbound' | 'outbound'\<close>.\<close>

datatype ElementType = microservice_type | gateway_type | inbound_type | outbound_type

record ElementRef =
  type :: ElementType
  name :: string

record ConnectedElements =
  microservice :: bool
  gateways :: "string set"
  inbound :: "string set"
  outbound :: "string set"

record GatewayLayout =
  gateway :: Gateway
  position :: Position
  angle :: real
  outboundPositions :: "RectPosition list"
  inboundPositions :: "RectPosition list"

record GraphLayout =
  gatewayLayouts :: "GatewayLayout list"

text \<open>
  The props of \<open>Graph\<close>. \<open>width\<close> and \<open>height\<close> default to 800 when absent;
  \<open>ringGapValue\<close> is \<open>configuration.ringGap?.value\<close>.
\<close>

record GraphProps =
  microservice :: "Microservice option"
  width :: "real option"
  height :: "real option"
  ringGapValue :: "real option"

text \<open>The three \<open>useState\<close> cells of the component that hold element references.\<close>

record SelectionState =
  hoveredElement :: "ElementRef option"
  selectedElement :: "ElementRef option"
  focusedElement :: "ElementRef option"

text \<open>\<open>xs ?? []\<close>: an absent array is read as the empty one by \<open>?.forEach\<close> and \<open>?.length || 0\<close>.\<close>

definition orEmpty :: "'a list option \<Rightarrow> 'a list" where
  "orEmpty xs = (case xs of None \<Rightarrow> [] | Some ys \<Rightarrow> ys)"

subsection \<open>utils.ts\<close>

definition getPointOnCircle :: "real \<Rightarrow> real \<Rightarrow> real \<Rightarrow> real \<Rightarrow> Position" where
  "getPointOnCircle centerX centerY radius angleInDegrees =
     (let angleInRadians = (angleInDegrees - 90) * (pi / 180)
      in \<lparr>x = centerX + radius * cos angleInRadians,
          y = centerY + radius * sin angleInRadians\<rparr>)"

text \<open>
  \<open>Array.from({ length: count }, (_, i) => f i)\<close> is \<open>map f [0..<count]\<close>. This is
  \<open>distributeOnArc\<close> over exact arithmetic, as the layout below calls it;
  \<open>distributeOnArc64\<close> is the same function over binary64.
\<close>

definition distributeOnArc :: "nat \<Rightarrow> real \<Rightarrow> real \<Rightarrow> real list" where
  "distributeOnArc count startAngle endAngle =
     (if count = 0 then []
      else if count = 1 then [(startAngle + endAngle) / 2]
      else (let angleStep = (endAngle - startAngle) / (real count - 1)
            in map (\<lambda>i. startAngle + real i * angleStep) [0..<count]))"

definition rectsCollide :: "RectPosition \<Rightarrow> RectPosition \<Rightarrow> bool" where
  "rectsCollide rect1 rect2 \<longleftrightarrow>
     \<not> (x (bottomRight rect1) < x (topLeft rect2) \<or>
        x (bottomRight rect2) < x (topLeft rect1) \<or>
        y (bottomRight rect1) < y (topLeft rect2) \<or>
        y (bottomRight rect2) < y (topLeft rect1))"


subsection \<open>binary64\<close>

text \<open>
  A double is a finite real (\<open>Finite 0\<close> is the zero with sign bit 0), the zero with sign
  bit 1, an infinity or NaN. Every arithmetic operation rounds its exact result to nearest,
  ties to even, on a significand of 53 bits: the unit in the last place of \<open>v\<close> is
  \<open>2 ^ (\<lfloor>log\<^sub>2 \<bar>v\<bar>\<rfloor> - 52)\<close>, and never below \<open>2 ^ - 1074\<close> (gradual underflow); a
  rounded magnitude of \<open>2 ^ 1024\<close> or more is an infinity.
\<close>

datatype double = Finite real | NegZero | PosInfinity | NegInfinity | NaN

definition pow2 :: "int \<Rightarrow> real" where
  "pow2 e = (if 0 \<le> e then 2 ^ nat e else 1 / 2 ^ nat (- e))"

definition roundHalfEven :: "real \<Rightarrow> int" where
  "roundHalfEven v =
     (let f = \<lfloor>v\<rfloor>
      in if v - of_int f < 1 / 2 then f
         else if 1 / 2 < v - of_int f then f + 1
         else if even f then f else f + 1)"

definition ulpExponent :: "real \<Rightarrow> int" where
  "ulpExponent v = max (\<lfloor>log 2 \<bar>v\<bar>\<rfloor> - 52) (- 1074)"

definition roundNearest :: "real \<Rightarrow> real" where
  "roundNearest v =
     (if v = 0 then 0
      else of_int (roundHalfEven (v / pow2 (ulpExponent v))) * pow2 (ulpExponent v))"

text \<open>
  The double an operation returns for the exact result \<open>v\<close>; \<open>negativeZero\<close> is the sign
  the rules of the operation give to a result that is exactly zero.
\<close>

definition toDouble :: "bool \<Rightarrow> real \<Rightarrow> double" where
  "toDouble negativeZero v =
     (let r = roundNearest v
      in if pow2 1024 \<le> r then PosInfinity
         else if r \<le> - pow2 1024 then NegInfinity
         else if r = 0 then (if v < 0 \<or> (v = 0 \<and> negativeZero) then NegZero else Finite 0)
         else Finite r)"

text \<open>The values of the datatype that are doubles: rounding leaves a finite one as it is.\<close>

definition isBinary64 :: "double \<Rightarrow> bool" where
  "isBinary64 d = (case d of Finite r \<Rightarrow> toDouble False r = Finite r | _ \<Rightarrow> True)"

definition isInfinite :: "double \<Rightarrow> bool" where
  "isInfinite d \<longleftrightarrow> d = PosInfinity \<or> d = NegInfinity"

definition isZero :: "double \<Rightarrow> bool" where
  "isZero d \<longleftrightarrow> d = Finite 0 \<or> d = NegZero"

definition isFinite :: "double \<Rightarrow> bool" where
  "isFinite d \<longleftrightarrow> d \<noteq> NaN \<and> \<not> isInfinite d"

definition signBit :: "double \<Rightarrow> bool" where
  "signBit d =
     (case d of Finite r \<Rightarrow> r < 0 | NegZero \<Rightarrow> True | NegInfinity \<Rightarrow> True | _ \<Rightarrow> False)"

definition valueOf :: "double \<Rightarrow> real" where
  "valueOf d = (case d of Finite r \<Rightarrow> r | _ \<Rightarrow> 0)"

definition signedInfinity :: "bool \<Rightarrow> double" where
  "signedInfinity negative = (if negative then NegInfinity else PosInfinity)"

definition signedZero :: "bool \<Rightarrow> double" where
  "signedZero negative = (if negative then NegZero else Finite 0)"

text \<open>Unary minus, \<open>+\<close>, \<open>-\<close>, \<open>*\<close> and \<open>/\<close> of JavaScript, with the special cases of IEEE 754.\<close>

definition fneg :: "double \<Rightarrow> double" where
  "fneg d =
     (case d of
        Finite r \<Rightarrow> (if r = 0 then NegZero else Finite (- r))
      | NegZero \<Rightarrow> Finite 0
      | PosInfinity \<Rightarrow> NegInfinity
      | NegInfinity \<Rightarrow> PosInfinity
      | NaN \<Rightarrow> NaN)"

definition fadd :: "double \<Rightarrow> double \<Rightarrow> double" where
  "fadd a b =
     (if a = NaN \<or> b = NaN then NaN
      else if isInfinite a then (if isInfinite b \<and> b \<noteq> a then NaN else a)
      else if isInfinite b then b
      else toDouble (signBit a \<and> signBit b) (valueOf a + valueOf b))"

definition fsub :: "double \<Rightarrow> double \<Rightarrow> double" where
  "fsub a b = fadd a (fneg b)"

definition fmul :: "double \<Rightarrow> double \<Rightarrow> double" where
  "fmul a b =
     (if a = NaN \<or> b = NaN then NaN
      else if isInfinite a \<or> isInfinite b then
        (if isZero a \<or> isZero b then NaN else signedInfinity (signBit a \<noteq> signBit b))
      else toDouble (signBit a \<noteq> signBit b) (valueOf a * valueOf b))"

definition fdiv :: "double \<Rightarrow> double \<Rightarrow> double" where
  "fdiv a b =
     (if a = NaN \<or> b = NaN then NaN
      else if isInfinite a then
        (if isInfinite b then NaN else signedInfinity (signBit a \<noteq> signBit b))
      else if isInfinite b then signedZero (signBit a \<noteq> signBit b)
      else if isZero b then
        (if isZero a then NaN else signedInfinity (signBit a \<noteq> signBit b))
      else toDouble (signBit a \<noteq> signBit b) (valueOf a / valueOf b))"

text \<open>\<open>a < b\<close> (and \<open>b > a\<close>) and \<open>a === b\<close>: false on NaN, and the two zeros are equal.\<close>

definition lessThan64 :: "double \<Rightarrow> double \<Rightarrow> bool" where
  "lessThan64 a b \<longleftrightarrow>
     a \<noteq> NaN \<and> b \<noteq> NaN \<and>
     (if a = NegInfinity then b \<noteq> NegInfinity
      else if b = PosInfinity then a \<noteq> PosInfinity
      else isFinite a \<and> isFinite b \<and> valueOf a < valueOf b)"

definition strictEquals :: "double \<Rightarrow> double \<Rightarrow> bool" where
  "strictEquals a b \<longleftrightarrow> a \<noteq> NaN \<and> b \<noteq> NaN \<and> (a = b \<or> (isZero a \<and> isZero b))"

definition Math_abs :: "double \<Rightarrow> double" where
  "Math_abs d =
     (case d of
        Finite r \<Rightarrow> Finite \<bar>r\<bar>
      | NegZero \<Rightarrow> Finite 0
      | NegInfinity \<Rightarrow> PosInfinity
      | PosInfinity \<Rightarrow> PosInfinity
      | NaN \<Rightarrow> NaN)"

text \<open>An array length or index as a number.\<close>

definition fromNat :: "nat \<Rightarrow> double" where
  "fromNat n = toDouble False (real n)"

subsection \<open>utils.ts over binary64\<close>

text \<open>
  \<open>distributeOnArc\<close>. \<open>Array.from({ length: count }, ...)\<close> creates its array with
  \<open>new Array(count)\<close>, which throws a \<open>RangeError\<close> for a length above \<open>2 ^ 32 - 1\<close>.
\<close>

datatype js_error = RangeError

definition distributeOnArc64 :: "nat \<Rightarrow> double \<Rightarrow> double \<Rightarrow> js_error + double list" where
  "distributeOnArc64 count startAngle endAngle =
     (if count = 0 then Inr []
      else if count = 1 then Inr [fdiv (fadd startAngle endAngle) (Finite 2)]
      else (let angleStep = fdiv (fsub endAngle startAngle) (fsub (fromNat count) (Finite 1))
            in if 4294967295 < count then Inl RangeError
               else Inr (map (\<lambda>i. fadd startAngle (fmul (fromNat i) angleStep)) [0..<count])))"

record Position64 =
  x64 :: double
  y64 :: double

text \<open>
  \<open>getRectEdgePoint\<close>. \<open>Math.atan2\<close> and \<open>Math.tan\<close> are functions of the platform, which
  ECMAScript leaves implementation-approximated: they are parameters here, and each
  statement below says what it needs of them.
\<close>

definition getRectEdgePoint ::
  "(double \<Rightarrow> double \<Rightarrow> double) \<Rightarrow> (double \<Rightarrow> double) \<Rightarrow>
   double \<Rightarrow> double \<Rightarrow> double \<Rightarrow> double \<Rightarrow> double \<Rightarrow> double \<Rightarrow> Position64" where
  "getRectEdgePoint Math_atan2 Math_tan rectCenterX rectCenterY rectWidth rectHeight
       targetX targetY =
     (let dx = fsub targetX rectCenterX;
          dy = fsub targetY rectCenterY
      in if strictEquals dx (Finite 0) \<and> strictEquals dy (Finite 0) then
           \<lparr>x64 = rectCenterX, y64 = fsub rectCenterY (fdiv rectHeight (Finite 2))\<rparr>
         else
           (let halfWidth = fdiv rectWidth (Finite 2);
                halfHeight = fdiv rectHeight (Finite 2);
                angle = Math_atan2 dy dx;
                tanAngle = Math_tan angle
            in if lessThan64 (fmul (Math_abs dy) halfWidth) (fmul (Math_abs dx) halfHeight) then
                 (let edgeX = (if lessThan64 (Finite 0) dx then halfWidth else fneg halfWidth);
                      edgeY = fmul edgeX tanAngle
                  in \<lparr>x64 = fadd rectCenterX edgeX, y64 = fadd rectCenterY edgeY\<rparr>)
               else
                 (let edgeY = (if lessThan64 (Finite 0) dy then halfHeight else fneg halfHeight);
                      edgeX = fdiv edgeY tanAngle
                  in \<lparr>x64 = fadd rectCenterX edgeX, y64 = fadd rectCenterY edgeY\<rparr>)))"

subsection \<open>Graph.tsx: layout configuration\<close>

text \<open>A destructuring default or \<open>v ?? d\<close>: the default stands in for an absent value.\<close>

definition defaulted :: "'a option \<Rightarrow> 'a \<Rightarrow> 'a" where
  "defaulted v d = (case v of None \<Rightarrow> d | Some a \<Rightarrow> a)"

definition centerX :: "GraphProps \<Rightarrow> real" where
  "centerX props = defaulted (width props) 800 / 2"

definition centerY :: "GraphProps \<Rightarrow> real" where
  "centerY props = defaulted (height props) 800 / 2"

definition endpointWidth :: real where
  "endpointWidth = 120"

definition endpointHeight :: real where
  "endpointHeight = 32"

definition defaultRingGap :: real where
  "defaultRingGap = 90"

definition ringGap :: "GraphProps \<Rightarrow> real" where
  "ringGap props = defaulted (ringGapValue props) defaultRingGap"

definition gatewayRingRadius :: real where
  "gatewayRingRadius = 140"

definition inboundRingRadius :: "GraphProps \<Rightarrow> real" where
  "inboundRingRadius props = gatewayRingRadius + ringGap props"

definition outboundRingRadius :: "GraphProps \<Rightarrow> real" where
  "outboundRingRadius props = gatewayRingRadius + ringGap props * 2"

subsection \<open>Graph.tsx: the collision resolver\<close>

definition createRectPosition :: "Position \<Rightarrow> real \<Rightarrow> RectPosition" where
  "createRectPosition centerPos a =
     \<lparr>x = x centerPos,
      y = y centerPos,
      RectPosition.angle = a,
      topLeft = \<lparr>x = x centerPos - endpointWidth / 2, y = y centerPos - endpointHeight / 2\<rparr>,
      bottomRight = \<lparr>x = x centerPos + endpointWidth / 2, y = y centerPos + endpointHeight / 2\<rparr>\<rparr>"

definition maxIterations :: nat where
  "maxIterations = 100"

text \<open>
  The body of the two nested \<open>for\<close> loops at the pair \<open>(i, j)\<close>, on the working copy
  \<open>resolved\<close> and the flag \<open>hasCollision\<close>. \<open>cx\<close> and \<open>cy\<close> are the component's
  \<open>centerX\<close> and \<open>centerY\<close>, which the closure captures.
\<close>

definition collisionStep ::
  "real \<Rightarrow> real \<Rightarrow> real \<Rightarrow> real \<Rightarrow> nat \<Rightarrow> nat \<Rightarrow> RectPosition list \<times> bool \<Rightarrow> RectPosition list \<times> bool" where
  "collisionStep cx cy ringRadius direction i j st =
     (let resolved = fst st
      in if rectsCollide (resolved ! i) (resolved ! j) then
           (let newAngle = RectPosition.angle (resolved ! j) + direction * 3;
                newCenter = getPointOnCircle cx cy ringRadius newAngle
            in (resolved[j := createRectPosition newCenter newAngle], True))
         else st)"

text \<open>\<open>for (let j = i + 1; j < resolved.length; j++)\<close>; the length never changes.\<close>

definition innerLoop ::
  "real \<Rightarrow> real \<Rightarrow> real \<Rightarrow> real \<Rightarrow> nat \<Rightarrow> RectPosition list \<times> bool \<Rightarrow> RectPosition list \<times> bool" where
  "innerLoop cx cy ringRadius direction i st =
     fold (collisionStep cx cy ringRadius direction i) [i + 1 ..< length (fst st)] st"

text \<open>\<open>for (let i = 0; i < resolved.length; i++)\<close>: one pass over all pairs.\<close>

definition outerLoop ::
  "real \<Rightarrow> real \<Rightarrow> real \<Rightarrow> real \<Rightarrow> RectPosition list \<times> bool \<Rightarrow> RectPosition list \<times> bool" where
  "outerLoop cx cy ringRadius direction st =
     fold (innerLoop cx cy ringRadius direction) [0 ..< length (fst st)] st"

text \<open>
  \<open>while (hasCollision && iterations < maxIterations)\<close> on the state
  \<open>(resolved, hasCollision, iterations)\<close>; the value is the state at the exit.
\<close>

function whileLoop ::
  "real \<Rightarrow> real \<Rightarrow> real \<Rightarrow> real \<Rightarrow> RectPosition list \<times> bool \<times> nat \<Rightarrow> RectPosition list \<times> bool \<times> nat" where
  "whileLoop cx cy ringRadius direction (resolved, hasCollision, iterations) =
     (if hasCollision \<and> iterations < maxIterations then
        whileLoop cx cy ringRadius direction
          (fst (outerLoop cx cy ringRadius direction (resolved, False)),
           snd (outerLoop cx cy ringRadius direction (resolved, False)),
           iterations + 1)
      else (resolved, hasCollision, iterations))"
  by pat_completeness auto
termination
  by (relation "measure (\<lambda>(cx, cy, ringRadius, direction, resolved, hasCollision, iterations).
        maxIterations - iterations)") auto

declare whileLoop.simps [simp del]

text \<open>The state in which \<open>resolveCollisions\<close> leaves its loop, for two rectangles or more.\<close>

definition resolveCollisionsExit ::
  "real \<Rightarrow> real \<Rightarrow> RectPosition list \<Rightarrow> real \<Rightarrow> real \<Rightarrow> RectPosition list \<times> bool \<times> nat" where
  "resolveCollisionsExit cx cy positions ringRadius direction =
     whileLoop cx cy ringRadius direction (positions, True, 0)"

definition resolveCollisions ::
  "real \<Rightarrow> real \<Rightarrow> RectPosition list \<Rightarrow> real \<Rightarrow> real \<Rightarrow> RectPosition list" where
  "resolveCollisions cx cy positions ringRadius direction =
     (if length positions < 2 then positions
      else fst (resolveCollisionsExit cx cy positions ringRadius direction))"

text \<open>
  The number of passes the loop of \<open>resolveCollisions\<close> ran: the final value of
  \<open>iterations\<close>, and 0 when the early return left before the loop.
\<close>

definition resolveCollisionsIterations ::
  "real \<Rightarrow> real \<Rightarrow> RectPosition list \<Rightarrow> real \<Rightarrow> real \<Rightarrow> nat" where
  "resolveCollisionsIterations cx cy positions ringRadius direction =
     (if length positions < 2 then 0
      else snd (snd (resolveCollisionsExit cx cy positions ringRadius direction)))"

text \<open>No pair of rectangles of the sequence overlaps under \<open>rectsCollide\<close>.\<close>

definition noCollision :: "RectPosition list \<Rightarrow> bool" where
  "noCollision rs \<longleftrightarrow>
     (\<forall>i j. i < j \<and> j < length rs \<longrightarrow> \<not> rectsCollide (rs ! i) (rs ! j))"

subsection \<open>Graph.tsx: the layout\<close>

definition inboundSpacing :: real where
  "inboundSpacing = 15"

definition outboundSpacing :: real where
  "outboundSpacing = 15"

definition inboundCenterAngle :: "real \<Rightarrow> real" where
  "inboundCenterAngle gatewayAngle = gatewayAngle - 20"

definition outboundCenterAngle :: "real \<Rightarrow> real" where
  "outboundCenterAngle gatewayAngle = gatewayAngle + 20"

text \<open>
  The callback of \<open>gateways.map((gateway, i) => ...)\<close>. \<open>gatewayAngles[i] || 0\<close> is 0
  for an index out of range (and for an angle that is 0 already).
\<close>

definition gatewayLayoutAt :: "GraphProps \<Rightarrow> real list \<Rightarrow> nat \<Rightarrow> Gateway \<Rightarrow> GatewayLayout" where
  "gatewayLayoutAt props gatewayAngles i gw =
     (let angle = (if i < length gatewayAngles then gatewayAngles ! i else 0);
          pos = getPointOnCircle (centerX props) (centerY props) gatewayRingRadius angle;
          inboundCount = length (orEmpty (Gateway.inbound gw));
          outboundCount = length (orEmpty (Gateway.outbound gw));
          inboundTotalSpan = max 0 ((real inboundCount - 1) * inboundSpacing);
          outboundTotalSpan = max 0 ((real outboundCount - 1) * outboundSpacing);
          inboundStartAngle = inboundCenterAngle angle - inboundTotalSpan / 2;
          outboundStartAngle = outboundCenterAngle angle - outboundTotalSpan / 2;
          inboundPositions =
            map (\<lambda>idx. let a = inboundStartAngle + real idx * inboundSpacing;
                            centerPos = getPointOnCircle (centerX props) (centerY props)
                                          (inboundRingRadius props) a
                        in createRectPosition centerPos a)
              [0 ..< inboundCount];
          outboundPositions =
            map (\<lambda>idx. let a = outboundStartAngle + real idx * outboundSpacing;
                            centerPos = getPointOnCircle (centerX props) (centerY props)
                                          (outboundRingRadius props) a
                        in createRectPosition centerPos a)
              [0 ..< outboundCount]
      in \<lparr>gateway = gw,
          position = pos,
          GatewayLayout.angle = angle,
          outboundPositions =
            resolveCollisions (centerX props) (centerY props) outboundPositions
              (outboundRingRadius props) 1,
          inboundPositions =
            resolveCollisions (centerX props) (centerY props) inboundPositions
              (inboundRingRadius props) (- 1)\<rparr>)"

text \<open>
  The \<open>useMemo\<close> that computes \<open>layout\<close>; \<open>None\<close> is \<open>null\<close>. The guard is
  \<open>!microservice || !microservice.gateways\<close>, and an empty array is truthy.
\<close>

definition layout :: "GraphProps \<Rightarrow> GraphLayout option" where
  "layout props =
     (case GraphProps.microservice props of
        None \<Rightarrow> None
      | Some ms \<Rightarrow>
          (case Microservice.gateways ms of
             None \<Rightarrow> None
           | Some gws \<Rightarrow>
               (let gatewayCount = length gws;
                    gatewayAngles =
                      distributeOnArc gatewayCount 0 (360 - 360 / real (max gatewayCount 1))
                in Some \<lparr>gatewayLayouts =
                     map (\<lambda>(i, gw). gatewayLayoutAt props gatewayAngles i gw)
                       (enumerate 0 gws)\<rparr>)))"

text \<open>
  \<open>if (!microservice || !layout)\<close>: the component returns the empty state
  ("No microservice data provided") instead of the drawing.
\<close>

definition emptyState :: "GraphProps \<Rightarrow> bool" where
  "emptyState props \<longleftrightarrow> GraphProps.microservice props = None \<or> layout props = None"

subsection \<open>Graph.tsx: focus and selection\<close>

text \<open>
  \<open>getConnectedElements\<close>: a JavaScript \<open>Set\<close> is a set and \<open>connected.gateways.add(n)\<close>
  is \<open>addGateway n\<close>; \<open>forEach\<close> is a \<open>fold\<close>, \<open>Array.find\<close> the library's \<open>find\<close> (the
  first match), \<open>includes\<close> membership in the array.
\<close>

definition addGateway :: "string \<Rightarrow> ConnectedElements \<Rightarrow> ConnectedElements" where
  "addGateway n c = c\<lparr>ConnectedElements.gateways := insert n (ConnectedElements.gateways c)\<rparr>"

definition addInbound :: "string \<Rightarrow> ConnectedElements \<Rightarrow> ConnectedElements" where
  "addInbound n c = c\<lparr>ConnectedElements.inbound := insert n (ConnectedElements.inbound c)\<rparr>"

definition addOutbound :: "string \<Rightarrow> ConnectedElements \<Rightarrow> ConnectedElements" where
  "addOutbound n c = c\<lparr>ConnectedElements.outbound := insert n (ConnectedElements.outbound c)\<rparr>"

definition getConnectedElements ::
  "ElementRef option \<Rightarrow> Microservice option \<Rightarrow> ConnectedElements option" where
  "getConnectedElements focused msData =
     (case focused of
        None \<Rightarrow> None
      | Some f \<Rightarrow>
          (case msData of
             None \<Rightarrow> None
           | Some ms \<Rightarrow>
               (let connected = \<lparr>ConnectedElements.microservice = False,
                                  ConnectedElements.gateways = {},
                                  ConnectedElements.inbound = {},
                                  ConnectedElements.outbound = {}\<rparr>;
                    gws = orEmpty (Microservice.gateways ms)
                in Some
                  (case ElementRef.type f of
                     microservice_type \<Rightarrow>
                       fold (\<lambda>gw. addGateway (Gateway.name gw)) gws
                         (connected\<lparr>ConnectedElements.microservice := True\<rparr>)
                   | gateway_type \<Rightarrow>
                       (let c = addGateway (ElementRef.name f)
                                  (connected\<lparr>ConnectedElements.microservice := True\<rparr>)
                        in case find (\<lambda>g. Gateway.name g = ElementRef.name f) gws of
                             None \<Rightarrow> c
                           | Some gw \<Rightarrow>
                               fold addOutbound (orEmpty (Gateway.outbound gw))
                                 (fold addInbound (orEmpty (Gateway.inbound gw)) c))
                   | inbound_type \<Rightarrow>
                       fold (\<lambda>gw c. if ElementRef.name f \<in> set (orEmpty (Gateway.inbound gw))
                                     then addGateway (Gateway.name gw) c else c)
                         gws (addInbound (ElementRef.name f) connected)
                   | outbound_type \<Rightarrow>
                       fold (\<lambda>gw c. if ElementRef.name f \<in> set (orEmpty (Gateway.outbound gw))
                                     then addGateway (Gateway.name gw) c else c)
                         gws (addOutbound (ElementRef.name f) connected)))))"

text \<open>
  The updater both state setters of \<open>handleClick\<close> use:
  \<open>prev?.name === element && prev?.type === type ? null : { type, name: element }\<close>.
\<close>

definition toggle :: "string \<Rightarrow> ElementType \<Rightarrow> ElementRef option \<Rightarrow> ElementRef option" where
  "toggle element ty prev =
     (case prev of
        None \<Rightarrow> Some \<lparr>ElementRef.type = ty, ElementRef.name = element\<rparr>
      | Some p \<Rightarrow>
          if ElementRef.name p = element \<and> ElementRef.type p = ty then None
          else Some \<lparr>ElementRef.type = ty, ElementRef.name = element\<rparr>)"

definition handleClick :: "string \<Rightarrow> ElementType \<Rightarrow> SelectionState \<Rightarrow> SelectionState" where
  "handleClick element ty s =
     s\<lparr>selectedElement := toggle element ty (selectedElement s),
       focusedElement := toggle element ty (focusedElement s)\<rparr>"

section \<open>The collision resolver\<close>

subsection \<open>The length of the working copy\<close>

lemma collisionStep_length:
  "length (fst (collisionStep cx cy r d i j st)) = length (fst st)"
  by (simp add: collisionStep_def Let_def)

lemma innerLoop_length: "length (fst (innerLoop cx cy r d i st)) = length (fst st)"
proof -
  have "length (fst (fold (collisionStep cx cy r d i) js st)) = length (fst st)" for js
    by (induction js arbitrary: st) (simp_all add: collisionStep_length)
  then show ?thesis by (simp add: innerLoop_def)
qed

lemma outerLoop_length: "length (fst (outerLoop cx cy r d st)) = length (fst st)"
proof -
  have "length (fst (fold (innerLoop cx cy r d) is st)) = length (fst st)" for "is"
    by (induction "is" arbitrary: st) (simp_all add: innerLoop_length)
  then show ?thesis by (simp add: outerLoop_def)
qed

lemma whileLoop_length: "length (fst (whileLoop cx cy r d st)) = length (fst st)"
proof (induction cx cy r d st rule: whileLoop.induct)
  case (1 cx cy r d resolved hasCollision iterations)
  show ?case
  proof (cases "hasCollision \<and> iterations < maxIterations")
    case True
    with "1.IH" show ?thesis
      by (subst whileLoop.simps) (simp add: outerLoop_length)
  next
    case False
    then show ?thesis
      by (subst whileLoop.simps) auto
  qed
qed

lemma resolveCollisions_length:
  "length (resolveCollisions cx cy positions r d) = length positions"
  by (simp add: resolveCollisions_def resolveCollisionsExit_def whileLoop_length)

lemma resolveCollisions_short:
  "length positions < 2 \<Longrightarrow> resolveCollisions cx cy positions r d = positions"
  by (simp add: resolveCollisions_def)

subsection \<open>A pass that leaves \<open>hasCollision\<close> false\<close>

text \<open>
  The flag is only ever set, so a pass that ends with the flag down found no colliding
  pair, moved nothing, and therefore tested every pair of the sequence it returns.
\<close>

lemma collisionStep_quiet:
  assumes "\<not> snd (collisionStep cx cy r d i j st)"
  shows "collisionStep cx cy r d i j st = st \<and> \<not> rectsCollide (fst st ! i) (fst st ! j)"
  using assms by (auto simp: collisionStep_def Let_def split: if_splits)

lemma fold_collisionStep_quiet:
  assumes "\<not> snd (fold (collisionStep cx cy r d i) js st)"
  shows "fold (collisionStep cx cy r d i) js st = st \<and>
         (\<forall>j \<in> set js. \<not> rectsCollide (fst st ! i) (fst st ! j))"
  using assms
proof (induction js arbitrary: st)
  case Nil
  then show ?case by simp
next
  case (Cons j js)
  let ?st = "collisionStep cx cy r d i j st"
  from Cons.prems have q: "\<not> snd (fold (collisionStep cx cy r d i) js ?st)"
    by simp
  from Cons.IH [OF q] have a: "fold (collisionStep cx cy r d i) js ?st = ?st"
    and b: "\<forall>j' \<in> set js. \<not> rectsCollide (fst ?st ! i) (fst ?st ! j')"
    by blast+
  from q a have "\<not> snd ?st" by simp
  from collisionStep_quiet [OF this] have c: "?st = st"
    and e: "\<not> rectsCollide (fst st ! i) (fst st ! j)"
    by blast+
  from a b c e show ?case by simp
qed

lemma innerLoop_quiet:
  assumes "\<not> snd (innerLoop cx cy r d i st)"
  shows "innerLoop cx cy r d i st = st \<and>
         (\<forall>j. i < j \<and> j < length (fst st) \<longrightarrow> \<not> rectsCollide (fst st ! i) (fst st ! j))"
  using fold_collisionStep_quiet [of cx cy r d i "[i + 1 ..< length (fst st)]" st] assms
  by (simp add: innerLoop_def)

lemma fold_innerLoop_quiet:
  assumes "\<not> snd (fold (innerLoop cx cy r d) is st)"
  shows "fold (innerLoop cx cy r d) is st = st \<and>
         (\<forall>i \<in> set is. \<forall>j. i < j \<and> j < length (fst st) \<longrightarrow>
            \<not> rectsCollide (fst st ! i) (fst st ! j))"
  using assms
proof (induction "is" arbitrary: st)
  case Nil
  then show ?case by simp
next
  case (Cons i "is")
  let ?st = "innerLoop cx cy r d i st"
  from Cons.prems have q: "\<not> snd (fold (innerLoop cx cy r d) is ?st)"
    by simp
  from Cons.IH [OF q] have a: "fold (innerLoop cx cy r d) is ?st = ?st"
    and b: "\<forall>i' \<in> set is. \<forall>j. i' < j \<and> j < length (fst ?st) \<longrightarrow>
              \<not> rectsCollide (fst ?st ! i') (fst ?st ! j)"
    by blast+
  from q a have "\<not> snd ?st" by simp
  from innerLoop_quiet [OF this] have c: "?st = st"
    and e: "\<forall>j. i < j \<and> j < length (fst st) \<longrightarrow> \<not> rectsCollide (fst st ! i) (fst st ! j)"
    by blast+
  from a b c e show ?case by simp
qed

lemma outerLoop_quiet:
  assumes "\<not> snd (outerLoop cx cy r d st)"
  shows "outerLoop cx cy r d st = st \<and> noCollision (fst st)"
  using fold_innerLoop_quiet [of cx cy r d "[0 ..< length (fst st)]" st] assms
  by (auto simp: outerLoop_def noCollision_def)

text \<open>
  The loop invariant: the counter never passes the ceiling, and a lowered flag means the
  working copy is free of collisions. At the exit either the flag is down or the counter
  has reached the ceiling.
\<close>

lemma whileLoop_exit:
  assumes "snd (snd st) \<le> maxIterations"
    and "\<not> fst (snd st) \<longrightarrow> noCollision (fst st)"
  shows "noCollision (fst (whileLoop cx cy r d st)) \<or>
         snd (snd (whileLoop cx cy r d st)) = maxIterations"
  using assms
proof (induction cx cy r d st rule: whileLoop.induct)
  case (1 cx cy r d resolved hasCollision iterations)
  show ?case
  proof (cases "hasCollision \<and> iterations < maxIterations")
    case True
    let ?p = "outerLoop cx cy r d (resolved, False)"
    have "\<not> snd ?p \<longrightarrow> noCollision (fst ?p)"
      using outerLoop_quiet [of cx cy r d "(resolved, False)"] by auto
    with True "1.IH" show ?thesis
      by (subst (1 2) whileLoop.simps) simp
  next
    case False
    with "1.prems" show ?thesis
      by (subst (1 2) whileLoop.simps) auto
  qed
qed

subsection \<open>Two runs of the loop\<close>

text \<open>Two rectangles far apart: one pass, no collision, the loop leaves after it.\<close>

lemma resolveCollisionsExit_apart:
  "resolveCollisionsExit 400 400
     [createRectPosition \<lparr>x = 0, y = 0\<rparr> 0, createRectPosition \<lparr>x = 500, y = 0\<rparr> 90] 230 1 =
   ([createRectPosition \<lparr>x = 0, y = 0\<rparr> 0, createRectPosition \<lparr>x = 500, y = 0\<rparr> 90], False, 1)"
  by (simp add: resolveCollisionsExit_def whileLoop.simps maxIterations_def outerLoop_def
      innerLoop_def collisionStep_def rectsCollide_def createRectPosition_def endpointWidth_def
      endpointHeight_def numeral_2_eq_2 upt_rec Let_def)

text \<open>
  Two rectangles on a ring of radius 0 share their centre whatever their angles are: every
  pass finds them colliding, and the loop stops at the ceiling with the collision left.
\<close>

lemma resolveCollisionsExit_ceiling:
  "fst (snd (resolveCollisionsExit 400 400
     [createRectPosition \<lparr>x = 400, y = 400\<rparr> 0, createRectPosition \<lparr>x = 400, y = 400\<rparr> 0] 0 1)) \<and>
   snd (snd (resolveCollisionsExit 400 400
     [createRectPosition \<lparr>x = 400, y = 400\<rparr> 0, createRectPosition \<lparr>x = 400, y = 400\<rparr> 0] 0 1)) = 100"
  by (simp add: resolveCollisionsExit_def whileLoop.simps maxIterations_def outerLoop_def
      innerLoop_def collisionStep_def rectsCollide_def createRectPosition_def endpointWidth_def
      endpointHeight_def numeral_2_eq_2 upt_rec Let_def getPointOnCircle_def)

subsection \<open>No overlap, or the ceiling\<close>

text \<open>
  Claim C1. For every input sequence of rectangles, every centre, ring radius and direction,
  when \<open>resolveCollisions\<close> returns, either no pair of the returned rectangles overlaps
  under \<open>rectsCollide\<close>, or the loop ran its full ceiling of \<open>maxIterations\<close> = 100 passes.
  The function returns the sequence in both cases: the ceiling is not an error.
\<close>

theorem resolveCollisions_no_overlap_or_ceiling:
  "noCollision (resolveCollisions cx cy positions r d) \<or>
   resolveCollisionsIterations cx cy positions r d = maxIterations"
proof (cases "length positions < 2")
  case True
  then have "resolveCollisions cx cy positions r d = positions"
    by (simp add: resolveCollisions_def)
  moreover from True have "\<not> (i < j \<and> j < length positions)" for i j :: nat
    by arith
  ultimately show ?thesis
    unfolding noCollision_def by metis
next
  case False
  from whileLoop_exit [of "(positions, True, 0)" cx cy r d] False show ?thesis
    by (simp add: resolveCollisions_def resolveCollisionsIterations_def
        resolveCollisionsExit_def)
qed

theorem resolveCollisions_no_overlap_or_ceiling_witness:
  "resolveCollisionsIterations 400 400
     [createRectPosition \<lparr>x = 0, y = 0\<rparr> 0, createRectPosition \<lparr>x = 500, y = 0\<rparr> 90] 230 1
     \<noteq> maxIterations \<and>
   (0::nat) < 1 \<and>
   1 < length (resolveCollisions 400 400
     [createRectPosition \<lparr>x = 0, y = 0\<rparr> 0, createRectPosition \<lparr>x = 500, y = 0\<rparr> 90] 230 1) \<and>
   \<not> rectsCollide
     (resolveCollisions 400 400
        [createRectPosition \<lparr>x = 0, y = 0\<rparr> 0, createRectPosition \<lparr>x = 500, y = 0\<rparr> 90] 230 1 ! 0)
     (resolveCollisions 400 400
        [createRectPosition \<lparr>x = 0, y = 0\<rparr> 0, createRectPosition \<lparr>x = 500, y = 0\<rparr> 90] 230 1 ! 1)"
proof -
  let ?ps = "[createRectPosition \<lparr>x = 0, y = 0\<rparr> 0, createRectPosition \<lparr>x = 500, y = 0\<rparr> 90]"
  have it: "resolveCollisionsIterations 400 400 ?ps 230 1 = 1"
    by (simp add: resolveCollisionsIterations_def resolveCollisionsExit_apart)
  have len: "length (resolveCollisions 400 400 ?ps 230 1) = 2"
    by (simp add: resolveCollisions_length)
  from resolveCollisions_no_overlap_or_ceiling [of 400 400 ?ps 230 1] it
  have "noCollision (resolveCollisions 400 400 ?ps 230 1)"
    by (simp add: maxIterations_def)
  then have "\<not> rectsCollide (resolveCollisions 400 400 ?ps 230 1 ! 0)
                             (resolveCollisions 400 400 ?ps 230 1 ! 1)"
    using len by (simp add: noCollision_def)
  with it len show ?thesis
    by (simp add: maxIterations_def)
qed

subsection \<open>The first rectangle stays\<close>

lemma collisionStep_first:
  "0 < j \<Longrightarrow> fst (collisionStep cx cy r d i j st) ! 0 = fst st ! 0"
  by (simp add: collisionStep_def Let_def)

lemma innerLoop_first: "fst (innerLoop cx cy r d i st) ! 0 = fst st ! 0"
proof -
  have "\<forall>j \<in> set js. 0 < j \<Longrightarrow>
          fst (fold (collisionStep cx cy r d i) js st) ! 0 = fst st ! 0" for js st
    by (induction js arbitrary: st) (simp_all add: collisionStep_first)
  then show ?thesis by (simp add: innerLoop_def)
qed

lemma outerLoop_first: "fst (outerLoop cx cy r d st) ! 0 = fst st ! 0"
proof -
  have "fst (fold (innerLoop cx cy r d) is st) ! 0 = fst st ! 0" for "is" st
    by (induction "is" arbitrary: st) (simp_all add: innerLoop_first)
  then show ?thesis by (simp add: outerLoop_def)
qed

lemma whileLoop_first: "fst (whileLoop cx cy r d st) ! 0 = fst st ! 0"
proof (induction cx cy r d st rule: whileLoop.induct)
  case (1 cx cy r d resolved hasCollision iterations)
  show ?case
  proof (cases "hasCollision \<and> iterations < maxIterations")
    case True
    with "1.IH" show ?thesis
      by (subst whileLoop.simps) (simp add: outerLoop_first)
  next
    case False
    then show ?thesis
      by (subst whileLoop.simps) auto
  qed
qed

text \<open>
  Claim C10. For every input sequence of rectangles, every ring radius and every direction,
  the sequence \<open>resolveCollisions\<close> returns is as long as the input and, when the input
  has a first element, its element at index 0 is that first element: only the later
  element \<open>j\<close> of a pair \<open>i < j\<close> is ever replaced, and \<open>j\<close> is never 0.
\<close>

theorem resolveCollisions_first:
  "length (resolveCollisions cx cy positions r d) = length positions \<and>
   (positions \<noteq> [] \<longrightarrow> resolveCollisions cx cy positions r d ! 0 = positions ! 0)"
  by (simp add: resolveCollisions_length)
     (simp add: resolveCollisions_def resolveCollisionsExit_def whileLoop_first)

theorem resolveCollisions_first_witness:
  "[createRectPosition \<lparr>x = 400, y = 400\<rparr> 0, createRectPosition \<lparr>x = 400, y = 400\<rparr> 0] \<noteq> [] \<and>
   resolveCollisions 400 400
     [createRectPosition \<lparr>x = 400, y = 400\<rparr> 0, createRectPosition \<lparr>x = 400, y = 400\<rparr> 0] 0 1 ! 0 =
   createRectPosition \<lparr>x = 400, y = 400\<rparr> 0"
  using resolveCollisions_first [of 400 400
      "[createRectPosition \<lparr>x = 400, y = 400\<rparr> 0, createRectPosition \<lparr>x = 400, y = 400\<rparr> 0]" 0 1]
  by simp

section \<open>Rounding to binary64\<close>

subsection \<open>Powers of two and the nearest integer\<close>

lemma pow2_powr: "pow2 e = 2 powr real_of_int e"
  by (simp add: pow2_def powr_real_of_int field_simps)

lemma pow2_pos: "0 < pow2 e"
  by (simp add: pow2_def)

lemma pow2_add: "pow2 (a + b) = pow2 a * pow2 b"
  by (simp add: pow2_powr powr_add)

lemma pow2_mono: "a \<le> b \<Longrightarrow> pow2 a \<le> pow2 b"
  by (simp add: pow2_powr)

lemma pow2_strict_mono: "a < b \<Longrightarrow> pow2 a < pow2 b"
  by (simp add: pow2_powr)


lemma roundHalfEven_near: "\<bar>of_int (roundHalfEven v) - v\<bar> \<le> 1 / 2"
  unfolding roundHalfEven_def Let_def by (auto simp: abs_le_iff)

lemma nearest_int_bounds:
  assumes "\<bar>real_of_int m - w\<bar> \<le> 1 / 2"
    and "real_of_int a \<le> \<bar>w\<bar>"
    and "\<bar>w\<bar> < real_of_int b"
  shows "a \<le> \<bar>m\<bar>" and "\<bar>m\<bar> \<le> b"
proof -
  have d: "real_of_int m - w \<le> 1 / 2" "w - real_of_int m \<le> 1 / 2"
    using assms(1) [unfolded abs_le_iff] by linarith+
  have t: "\<bar>real_of_int m\<bar> = real_of_int \<bar>m\<bar>" by simp
  from d assms(2) have "real_of_int a < \<bar>real_of_int m\<bar> + 1"
    by linarith
  then have "real_of_int a < real_of_int (\<bar>m\<bar> + 1)" by simp
  then have "a < \<bar>m\<bar> + 1" by (simp only: of_int_less_iff)
  then show "a \<le> \<bar>m\<bar>" by simp
  from d assms(3) have "\<bar>real_of_int m\<bar> < real_of_int b + 1"
    by linarith
  then have "real_of_int \<bar>m\<bar> < real_of_int (b + 1)" by simp
  then have "\<bar>m\<bar> < b + 1" by (simp only: of_int_less_iff)
  then show "\<bar>m\<bar> \<le> b" by simp
qed

lemma floor_log2_bounds:
  assumes "v \<noteq> 0"
  shows "pow2 \<lfloor>log 2 \<bar>v\<bar>\<rfloor> \<le> \<bar>v\<bar>" and "\<bar>v\<bar> < pow2 (\<lfloor>log 2 \<bar>v\<bar>\<rfloor> + 1)"
proof -
  from assms have p: "0 < \<bar>v\<bar>" by simp
  have "\<lfloor>log 2 \<bar>v\<bar>\<rfloor> = \<lfloor>log 2 \<bar>v\<bar>\<rfloor>" ..
  with p show "pow2 \<lfloor>log 2 \<bar>v\<bar>\<rfloor> \<le> \<bar>v\<bar>" and "\<bar>v\<bar> < pow2 (\<lfloor>log 2 \<bar>v\<bar>\<rfloor> + 1)"
    by (simp_all only: floor_log_eq_powr_iff pow2_powr)
qed

subsection \<open>Rounding a real\<close>

lemma toDouble_0: "toDouble s 0 = signedZero s"
  using pow2_pos [of 1024] by (simp add: toDouble_def roundNearest_def signedZero_def)

lemma toDouble_flag: "v \<noteq> 0 \<Longrightarrow> toDouble s v = toDouble s' v"
  by (simp add: toDouble_def)

lemma ulpExponent_eval:
  assumes "pow2 k \<le> \<bar>v\<bar>" and "\<bar>v\<bar> < pow2 (k + 1)"
  shows "ulpExponent v = max (k - 52) (- 1074)"
proof -
  from assms(1) pow2_pos [of k] have "0 < \<bar>v\<bar>" by linarith
  then have "\<lfloor>log 2 \<bar>v\<bar>\<rfloor> = k"
    using assms by (simp add: floor_log_eq_powr_iff pow2_powr)
  then show ?thesis by (simp add: ulpExponent_def)
qed

text \<open>
  In the normal range the significand \<open>v / 2 ^ (k - 52)\<close> lies between \<open>2 ^ 52\<close> and
  \<open>2 ^ 53\<close>, and so does its rounding: the rounded value stays in \<open>[2 ^ k, 2 ^ (k + 1)]\<close>.
\<close>

lemma roundNearest_bounds:
  assumes "pow2 k \<le> \<bar>v\<bar>" and "\<bar>v\<bar> < pow2 (k + 1)" and "- 1022 \<le> k"
  shows "roundNearest v = of_int (roundHalfEven (v / pow2 (k - 52))) * pow2 (k - 52)"
    and "pow2 k \<le> \<bar>roundNearest v\<bar>"
    and "\<bar>roundNearest v\<bar> \<le> pow2 (k + 1)"
proof -
  let ?u = "pow2 (k - 52)"
  let ?y = "v / ?u"
  let ?m = "roundHalfEven ?y"
  have u: "0 < ?u" by (rule pow2_pos)
  from assms(1) pow2_pos [of k] have nz: "v \<noteq> 0" by auto
  from assms(3) have "max (k - 52) (- 1074) = k - 52" by simp
  with ulpExponent_eval [OF assms(1,2)] have e: "ulpExponent v = k - 52" by simp
  with nz show r: "roundNearest v = of_int ?m * ?u"
    by (simp add: roundNearest_def)
  have k: "pow2 k = 2 ^ 52 * ?u"
    using pow2_add [of 52 "k - 52"] by (simp add: pow2_def [of 52])
  have k1: "pow2 (k + 1) = 2 ^ 53 * ?u"
    using pow2_add [of 53 "k - 52"] by (simp add: pow2_def [of 53] add.commute)
  from assms(1) k u have lo: "2 ^ 52 \<le> \<bar>?y\<bar>"
    by (simp add: field_simps)
  from assms(2) k1 u have hi: "\<bar>?y\<bar> < 2 ^ 53"
    by (simp add: field_simps)
  from nearest_int_bounds [OF roundHalfEven_near [of ?y], of "2 ^ 52" "2 ^ 53"] lo hi
  have "2 ^ 52 \<le> \<bar>?m\<bar>" and "\<bar>?m\<bar> \<le> 2 ^ 53"
    by simp_all
  then have mlo: "(2::real) ^ 52 \<le> real_of_int \<bar>?m\<bar>"
    and mhi: "real_of_int \<bar>?m\<bar> \<le> 2 ^ 53"
    by (metis of_int_le_iff of_int_numeral of_int_power)+
  have a: "\<bar>roundNearest v\<bar> = real_of_int \<bar>?m\<bar> * ?u"
    using u by (simp add: r abs_mult)
  from mlo u have "2 ^ 52 * ?u \<le> real_of_int \<bar>?m\<bar> * ?u"
    by (intro mult_right_mono) simp_all
  with a k show "pow2 k \<le> \<bar>roundNearest v\<bar>" by simp
  from mhi u have "real_of_int \<bar>?m\<bar> * ?u \<le> 2 ^ 53 * ?u"
    by (intro mult_right_mono) simp_all
  with a k1 show "\<bar>roundNearest v\<bar> \<le> pow2 (k + 1)" by simp
qed

text \<open>The evaluation rule for a number whose binary exponent \<open>k\<close> is known.\<close>

lemma toDouble_eval:
  assumes "pow2 k \<le> \<bar>v\<bar>" and "\<bar>v\<bar> < pow2 (k + 1)" and "- 1022 \<le> k" and "k \<le> 1022"
  shows "toDouble s v = Finite (of_int (roundHalfEven (v / pow2 (k - 52))) * pow2 (k - 52))"
proof -
  note b = roundNearest_bounds [OF assms(1,2,3)]
  from b(2) pow2_pos [of k] have "roundNearest v \<noteq> 0" by auto
  moreover from assms(4) have "pow2 (k + 1) < pow2 1024"
    by (intro pow2_strict_mono) simp
  with b(3) have "\<bar>roundNearest v\<bar> < pow2 1024" by simp
  ultimately show ?thesis
    unfolding b(1) [symmetric] by (auto simp: toDouble_def Let_def)
qed

text \<open>A number of the normal range never rounds to a zero.\<close>

lemma toDouble_normal:
  assumes "pow2 (- 1022) \<le> \<bar>v\<bar>"
  shows "toDouble s v = PosInfinity \<or> toDouble s v = NegInfinity \<or>
         (\<exists>r. toDouble s v = Finite r \<and> pow2 (- 1022) \<le> \<bar>r\<bar>)"
proof -
  let ?k = "\<lfloor>log 2 \<bar>v\<bar>\<rfloor>"
  from assms pow2_pos [of "- 1022"] have nz: "v \<noteq> 0" by auto
  have "pow2 (- 1022) < pow2 (?k + 1)"
    using assms floor_log2_bounds(2) [OF nz] by linarith
  then have "- 1022 < ?k + 1"
    by (simp only: pow2_powr powr_less_cancel_iff)
  then have k: "- 1022 \<le> ?k" by simp
  from roundNearest_bounds(2) [OF floor_log2_bounds [OF nz] k] pow2_mono [OF k]
  have b: "pow2 (- 1022) \<le> \<bar>roundNearest v\<bar>" by linarith
  with pow2_pos [of "- 1022"] have "roundNearest v \<noteq> 0" by auto
  with b show ?thesis
    by (simp add: toDouble_def Let_def)
qed

lemma isBinary64_bound:
  assumes "isBinary64 (Finite t)"
  shows "\<bar>t\<bar> < pow2 1024"
proof -
  from assms have "toDouble False t = Finite t" by (simp add: isBinary64_def)
  then show ?thesis
    using pow2_pos [of 1024]
    by (auto simp: toDouble_def Let_def split: if_splits)
qed



subsection \<open>The numbers of the examples\<close>

lemma toDouble_1: "toDouble s 1 = Finite 1"
  by (simp add: toDouble_eval [of 0] pow2_def roundHalfEven_def)



lemma toDouble_10: "toDouble s 10 = Finite 10"
  by (simp add: toDouble_eval [of 3] pow2_def roundHalfEven_def)

lemma toDouble_neg_10: "toDouble s (- 10) = Finite (- 10)"
  by (simp add: toDouble_eval [of 3] pow2_def roundHalfEven_def)




lemma toDouble_16: "toDouble s 16 = Finite 16"
  by (simp add: toDouble_eval [of 4] pow2_def roundHalfEven_def)

lemma toDouble_neg_16: "toDouble s (- 16) = Finite (- 16)"
  by (simp add: toDouble_eval [of 4] pow2_def roundHalfEven_def)



lemma toDouble_60: "toDouble s 60 = Finite 60"
  by (simp add: toDouble_eval [of 5] pow2_def roundHalfEven_def)



lemma toDouble_160: "toDouble s 160 = Finite 160"
  by (simp add: toDouble_eval [of 7] pow2_def roundHalfEven_def)

lemma toDouble_360: "toDouble s 360 = Finite 360"
  by (simp add: toDouble_eval [of 8] pow2_def roundHalfEven_def)

lemma toDouble_600: "toDouble s 600 = Finite 600"
  by (simp add: toDouble_eval [of 9] pow2_def roundHalfEven_def)




text \<open>
  \<open>- 16331239353195370\<close> is the double V8 returns for \<open>Math.tan(Math.atan2(-10, 0))\<close>,
  and 16 divided by it rounds to \<open>9.797174393178826e-16\<close>.
\<close>

lemma toDouble_tan: "toDouble s (- 16331239353195370) = Finite (- 16331239353195370)"
  by (simp add: toDouble_eval [of 53] pow2_def roundHalfEven_def)

lemma toDouble_edge: "toDouble s (8 / 8165619676597685) =
    Finite (4967757600021511 / 5070602400912917605986812821504)"
  by (simp add: toDouble_eval [of "- 50"] pow2_def roundHalfEven_def Let_def)

lemma toDouble_edge_fix: "toDouble s (4967757600021511 / 5070602400912917605986812821504) =
    Finite (4967757600021511 / 5070602400912917605986812821504)"
  by (simp add: toDouble_eval [of "- 50"] pow2_def roundHalfEven_def Let_def)

lemmas toDouble_small = toDouble_10 toDouble_neg_10 toDouble_60 toDouble_16 toDouble_neg_16 toDouble_600 toDouble_160 toDouble_0 signedZero_def

section \<open>The geometry helpers\<close>

subsection \<open>\<open>distributeOnArc\<close>\<close>









text \<open>
  The one gateway angle of a graph with a single gateway, which the layout computes as
  \<open>distributeOnArc(1, 0, 360 - 360 / 1)\<close>, is 0 in binary64 as it is over the reals.
\<close>

lemma distributeOnArc64_single_gateway:
  "distributeOnArc64 1 (Finite 0) (fsub (Finite 360) (fdiv (Finite 360) (fromNat (max 1 1)))) =
     Inr [Finite 0]"
  by (simp add: distributeOnArc64_def fsub_def fneg_def fadd_def fdiv_def fromNat_def toDouble_1
      toDouble_360 toDouble_0 signedZero_def isInfinite_def isZero_def valueOf_def signBit_def)

subsection \<open>\<open>getRectEdgePoint\<close>\<close>

text \<open>A target on the centre: the fallback is the top-centre, whatever the platform.\<close>

lemma fsub_self: "isFinite c \<Longrightarrow> isZero (fsub c c)"
  by (cases c) (auto simp: fsub_def fneg_def fadd_def isInfinite_def valueOf_def toDouble_0
      signedZero_def isZero_def isFinite_def)

lemma getRectEdgePoint_center:
  "isFinite cx \<Longrightarrow> isFinite cy \<Longrightarrow>
     getRectEdgePoint Math_atan2 Math_tan cx cy w h cx cy =
       \<lparr>x64 = cx, y64 = fsub cy (fdiv h (Finite 2))\<rparr>"
  using fsub_self [of cx] fsub_self [of cy]
  by (auto simp: getRectEdgePoint_def Let_def strictEquals_def isZero_def)

text \<open>
  A target directly to the right, for the endpoint rectangle of 120 by 32 centred on the
  origin: the right-centre. \<open>Math.atan2(0, 10)\<close> and \<open>Math.tan(0)\<close> are exactly 0 by
  ECMAScript.
\<close>

lemma getRectEdgePoint_right_example:
  assumes "Math_atan2 (Finite 0) (Finite 10) = Finite 0" and "Math_tan (Finite 0) = Finite 0"
  shows "getRectEdgePoint Math_atan2 Math_tan (Finite 0) (Finite 0) (Finite 120) (Finite 32)
           (Finite 10) (Finite 0) = \<lparr>x64 = Finite 60, y64 = Finite 0\<rparr>"
  using assms
  by (simp add: getRectEdgePoint_def Let_def fsub_def fadd_def fneg_def fdiv_def fmul_def
      Math_abs_def toDouble_small isInfinite_def isZero_def valueOf_def signBit_def strictEquals_def
      lessThan64_def isFinite_def)

text \<open>
  A target directly above: \<open>dx\<close> is 0, the angle is \<open>Math.atan2(dy, 0)\<close>, and the code
  divides \<open>- halfHeight\<close> by the tangent of that angle.
\<close>

lemma getRectEdgePoint_above_shape:
  assumes "Math_tan (Math_atan2 (Finite (- 10)) (Finite 0)) = Finite t" and "t \<noteq> 0"
  shows "getRectEdgePoint Math_atan2 Math_tan (Finite 0) (Finite 0) (Finite 120) (Finite 32)
           (Finite 0) (Finite (- 10)) =
         \<lparr>x64 = fadd (Finite 0) (toDouble False (- 16 / t)), y64 = Finite (- 16)\<rparr>"
proof -
  have dx: "fsub (Finite 0) (Finite 0) = Finite 0"
    by (simp add: fsub_def fneg_def fadd_def isInfinite_def valueOf_def signBit_def toDouble_small)
  have dy: "fsub (Finite (- 10)) (Finite 0) = Finite (- 10)"
    by (simp add: fsub_def fneg_def fadd_def isInfinite_def valueOf_def signBit_def toDouble_small)
  have y: "fadd (Finite 0) (fneg (Finite 16)) = Finite (- 16)"
    by (simp add: fadd_def fneg_def isInfinite_def valueOf_def signBit_def toDouble_small)
  have half: "fdiv (Finite 120) (Finite 2) = Finite 60" "fdiv (Finite 32) (Finite 2) = Finite 16"
    by (simp_all add: fdiv_def isInfinite_def isZero_def valueOf_def toDouble_small)
  have prod: "fmul (Math_abs (Finite (- 10))) (Finite 60) = Finite 600"
    "fmul (Math_abs (Finite 0)) (Finite 16) = Finite 0"
    by (simp_all add: fmul_def Math_abs_def isInfinite_def valueOf_def signBit_def toDouble_small)
  have "toDouble s (- 16 / t) = toDouble False (- 16 / t)" for s
    using assms(2) by (intro toDouble_flag) simp
  then have edge: "fdiv (fneg (Finite 16)) (Finite t) = toDouble False (- 16 / t)"
    using assms(2) by (simp add: fdiv_def fneg_def isInfinite_def isZero_def valueOf_def)
  show ?thesis
    by (simp add: getRectEdgePoint_def Let_def dx dy y half prod edge assms(1) strictEquals_def
        lessThan64_def isFinite_def isInfinite_def isZero_def valueOf_def)
qed

text \<open>
  Claim C7 at its failing input, the rectangle of 120 by 32 centred on the origin with the
  target \<open>(0, - 10)\<close> directly above. No double is an odd multiple of \<open>\<pi>/2\<close>, so
  \<open>Math.tan\<close> returns a finite double other than 0 at \<open>Math.atan2(- 10, 0)\<close>; whichever
  it is, the point returned has \<open>y = - 16\<close> and an \<open>x\<close> that is not 0: it is not the
  top-centre \<open>(0, - 16)\<close>.
\<close>

theorem getRectEdgePoint_vertical_target:
  assumes "Math_tan (Math_atan2 (Finite (- 10)) (Finite 0)) = Finite t"
    and "t \<noteq> 0"
    and "isBinary64 (Finite t)"
  shows "y64 (getRectEdgePoint Math_atan2 Math_tan (Finite 0) (Finite 0) (Finite 120) (Finite 32)
                (Finite 0) (Finite (- 10))) = Finite (- 16) \<and>
         \<not> strictEquals
             (x64 (getRectEdgePoint Math_atan2 Math_tan (Finite 0) (Finite 0) (Finite 120)
                     (Finite 32) (Finite 0) (Finite (- 10))))
             (Finite 0)"
proof -
  let ?q = "toDouble False (- 16 / t)"
  have t: "0 < \<bar>t\<bar>" "\<bar>t\<bar> < pow2 1024"
    using assms(2) isBinary64_bound [OF assms(3)] by simp_all
  have "pow2 (- 1022) * \<bar>t\<bar> \<le> pow2 (- 1022) * pow2 1024"
    using t(2) pow2_pos [of "- 1022"] by (intro mult_left_mono) simp_all
  also have "\<dots> = 4"
    using pow2_add [of "- 1022" 1024] by (simp add: pow2_def [of 2])
  finally have big: "pow2 (- 1022) \<le> \<bar>- 16 / t\<bar>"
    using t(1) by (simp add: field_simps)
  have nz: "\<not> strictEquals (fadd (Finite 0) ?q) (Finite 0)"
  proof -
    from toDouble_normal [OF big, of False]
    consider "?q = PosInfinity" | "?q = NegInfinity"
      | r where "?q = Finite r" "pow2 (- 1022) \<le> \<bar>r\<bar>"
      by blast
    then show ?thesis
    proof cases
      case 1
      then show ?thesis by (simp add: fadd_def isInfinite_def strictEquals_def isZero_def)
    next
      case 2
      then show ?thesis by (simp add: fadd_def isInfinite_def strictEquals_def isZero_def)
    next
      case 3
      from toDouble_normal [OF 3(2), of "signBit (Finite 0) \<and> signBit (Finite r)"] pow2_pos [of "- 1022"]
      have "\<not> strictEquals (toDouble (signBit (Finite 0) \<and> signBit (Finite r)) r) (Finite 0)"
        by (auto simp: strictEquals_def isZero_def)
      with 3(1) show ?thesis
        by (simp add: fadd_def isInfinite_def valueOf_def)
    qed
  qed
  from getRectEdgePoint_above_shape [of Math_tan Math_atan2 t] assms(1,2) nz
  show ?thesis by simp
qed

text \<open>With the values of V8 the point is \<open>(9.797174393178826e-16, - 16)\<close>.\<close>

theorem getRectEdgePoint_vertical_target_witness:
  "(- 16331239353195370 :: real) \<noteq> 0 \<and>
   isBinary64 (Finite (- 16331239353195370)) \<and>
   getRectEdgePoint (\<lambda>b a. Finite (- (884279719003555 / 562949953421312)))
       (\<lambda>a. Finite (- 16331239353195370))
       (Finite 0) (Finite 0) (Finite 120) (Finite 32) (Finite 0) (Finite (- 10)) =
     \<lparr>x64 = Finite (4967757600021511 / 5070602400912917605986812821504), y64 = Finite (- 16)\<rparr> \<and>
   \<not> strictEquals (Finite (4967757600021511 / 5070602400912917605986812821504)) (Finite 0)"
proof -
  have b: "isBinary64 (Finite (- 16331239353195370))"
    by (simp add: isBinary64_def toDouble_tan)
  have s: "getRectEdgePoint (\<lambda>b a. Finite (- (884279719003555 / 562949953421312)))
       (\<lambda>a. Finite (- 16331239353195370))
       (Finite 0) (Finite 0) (Finite 120) (Finite 32) (Finite 0) (Finite (- 10)) =
     \<lparr>x64 = Finite (4967757600021511 / 5070602400912917605986812821504), y64 = Finite (- 16)\<rparr>"
    by (simp add: getRectEdgePoint_above_shape [of _ _ "- 16331239353195370"] fadd_def
        isInfinite_def valueOf_def toDouble_edge toDouble_edge_fix)
  from getRectEdgePoint_vertical_target
    [of "\<lambda>a. Finite (- 16331239353195370)"
        "\<lambda>b a. Finite (- (884279719003555 / 562949953421312))" "- 16331239353195370"] b s
  show ?thesis by simp
qed

section \<open>The layout\<close>

text \<open>
  Claim C2, as amended. \<open>layout\<close> is \<open>null\<close> exactly when the microservice is absent or
  has no \<open>gateways\<close> field, and the component shows its empty state exactly then. For a
  microservice whose gateway list is empty the layout is not \<open>null\<close>: it is the layout
  with no gateway layouts, and the component draws it.
\<close>

theorem layout_null_iff:
  "(layout props = None \<longleftrightarrow>
      GraphProps.microservice props = None \<or>
      (\<exists>ms. GraphProps.microservice props = Some ms \<and> Microservice.gateways ms = None)) \<and>
   (emptyState props \<longleftrightarrow> layout props = None) \<and>
   (\<forall>ms. GraphProps.microservice props = Some ms \<and> Microservice.gateways ms = Some [] \<longrightarrow>
      layout props = Some \<lparr>gatewayLayouts = []\<rparr> \<and> \<not> emptyState props)"
proof -
  have a: "layout props = None \<longleftrightarrow>
      GraphProps.microservice props = None \<or>
      (\<exists>ms. GraphProps.microservice props = Some ms \<and> Microservice.gateways ms = None)"
    by (auto simp: layout_def Let_def split: option.splits)
  have b: "emptyState props \<longleftrightarrow> layout props = None"
    by (auto simp: emptyState_def layout_def)
  have c: "layout props = Some \<lparr>gatewayLayouts = []\<rparr>"
    if "GraphProps.microservice props = Some ms" "Microservice.gateways ms = Some []" for ms
    using that by (simp add: layout_def)
  from a b c show ?thesis by simp
qed

theorem layout_null_iff_witness:
  "layout \<lparr>GraphProps.microservice = None, width = None, height = None, ringGapValue = None\<rparr> = None \<and>
   layout \<lparr>GraphProps.microservice =
             Some \<lparr>Microservice.name = ''OrderService'', Microservice.id = ''ms1'',
                   Microservice.gateways = None\<rparr>,
           width = None, height = None, ringGapValue = None\<rparr> = None \<and>
   Microservice.gateways \<lparr>Microservice.name = ''OrderService'', Microservice.id = ''ms1'',
                          Microservice.gateways = Some []\<rparr> = Some [] \<and>
   layout \<lparr>GraphProps.microservice =
             Some \<lparr>Microservice.name = ''OrderService'', Microservice.id = ''ms1'',
                   Microservice.gateways = Some []\<rparr>,
           width = None, height = None, ringGapValue = None\<rparr> = Some \<lparr>gatewayLayouts = []\<rparr>"
  using
    layout_null_iff [of "\<lparr>GraphProps.microservice = None, width = None, height = None,
                          ringGapValue = None\<rparr>"]
    layout_null_iff [of "\<lparr>GraphProps.microservice =
                            Some \<lparr>Microservice.name = ''OrderService'', Microservice.id = ''ms1'',
                                  Microservice.gateways = None\<rparr>,
                          width = None, height = None, ringGapValue = None\<rparr>"]
    layout_null_iff [of "\<lparr>GraphProps.microservice =
                            Some \<lparr>Microservice.name = ''OrderService'', Microservice.id = ''ms1'',
                                  Microservice.gateways = Some []\<rparr>,
                          width = None, height = None, ringGapValue = None\<rparr>"]
  by simp

text \<open>
  The claim as stated fails on the empty gateway list: the guard tests the array for
  absence, and an empty array passes it.
\<close>

theorem layout_null_iff_counterexample:
  "layout \<lparr>GraphProps.microservice =
             Some \<lparr>Microservice.name = ''OrderService'', Microservice.id = ''ms1'',
                   Microservice.gateways = Some []\<rparr>,
           width = None, height = None, ringGapValue = None\<rparr> \<noteq> None \<and>
   \<not> emptyState \<lparr>GraphProps.microservice =
             Some \<lparr>Microservice.name = ''OrderService'', Microservice.id = ''ms1'',
                   Microservice.gateways = Some []\<rparr>,
           width = None, height = None, ringGapValue = None\<rparr>"
  by (simp add: layout_def emptyState_def distributeOnArc_def)

text \<open>
  Claim C3. The microservice \<open>OrderService\<close> with the one gateway \<open>PaymentGW\<close> (inbound
  \<open>CreateOrder\<close>, outbound \<open>ChargeCard\<close> and \<open>RefundCard\<close>), on a canvas of 800 by 800
  with no ring gap configured: the three ring radii are 140, 230 and 320, the layout has
  one gateway layout, at angle 0, and its one inbound rectangle is centred on the inbound
  ring at the angle \<open>inboundCenterAngle 0 = - 20\<close>.
\<close>

theorem layout_order_service:
  "gatewayRingRadius = 140 \<and>
   inboundRingRadius \<lparr>GraphProps.microservice = Some
       \<lparr>Microservice.name = ''OrderService'', Microservice.id = ''ms1'',
        Microservice.gateways = Some
          [\<lparr>Gateway.type = ''REST'', Gateway.name = ''PaymentGW'',
            Gateway.outbound = Some [''ChargeCard'', ''RefundCard''],
            Gateway.inbound = Some [''CreateOrder'']\<rparr>]\<rparr>,
     width = Some 800, height = Some 800, ringGapValue = None\<rparr> = 230 \<and>
   outboundRingRadius \<lparr>GraphProps.microservice = Some
       \<lparr>Microservice.name = ''OrderService'', Microservice.id = ''ms1'',
        Microservice.gateways = Some
          [\<lparr>Gateway.type = ''REST'', Gateway.name = ''PaymentGW'',
            Gateway.outbound = Some [''ChargeCard'', ''RefundCard''],
            Gateway.inbound = Some [''CreateOrder'']\<rparr>]\<rparr>,
     width = Some 800, height = Some 800, ringGapValue = None\<rparr> = 320 \<and>
   inboundCenterAngle 0 = - 20 \<and>
   (\<exists>gl. layout \<lparr>GraphProps.microservice = Some
       \<lparr>Microservice.name = ''OrderService'', Microservice.id = ''ms1'',
        Microservice.gateways = Some
          [\<lparr>Gateway.type = ''REST'', Gateway.name = ''PaymentGW'',
            Gateway.outbound = Some [''ChargeCard'', ''RefundCard''],
            Gateway.inbound = Some [''CreateOrder'']\<rparr>]\<rparr>,
     width = Some 800, height = Some 800, ringGapValue = None\<rparr> = Some \<lparr>gatewayLayouts = [gl]\<rparr> \<and>
     GatewayLayout.angle gl = 0 \<and>
     position gl = getPointOnCircle 400 400 140 0 \<and>
     inboundPositions gl = [createRectPosition (getPointOnCircle 400 400 230 (- 20)) (- 20)])"
proof (intro conjI)
  show "gatewayRingRadius = 140"
    by (simp add: gatewayRingRadius_def)
  show "inboundCenterAngle 0 = - 20"
    by (simp add: inboundCenterAngle_def)
qed (simp_all add: inboundRingRadius_def outboundRingRadius_def ringGap_def defaulted_def
      defaultRingGap_def gatewayRingRadius_def layout_def enumerate_eq_zip distributeOnArc_def
      gatewayLayoutAt_def Let_def orEmpty_def resolveCollisions_short inboundCenterAngle_def
      centerX_def centerY_def inboundSpacing_def)

section \<open>The gateway kinds\<close>

lemma gatewayLayoutAt_type:
  "gatewayLayoutAt props angles i (gw\<lparr>Gateway.type := k\<rparr>) =
     (gatewayLayoutAt props angles i gw)\<lparr>gateway := gw\<lparr>Gateway.type := k\<rparr>\<rparr>"
  by (simp add: gatewayLayoutAt_def Let_def)

lemma gatewayLayoutAt_gateway: "gateway (gatewayLayoutAt props angles i gw) = gw"
  by (simp add: gatewayLayoutAt_def Let_def)

lemma enumerate_map: "enumerate n (map f xs) = map (\<lambda>(i, x). (i, f x)) (enumerate n xs)"
  by (induction xs arbitrary: n) simp_all

text \<open>
  Claim C9, as amended. The gateway kinds the program defines are exactly \<open>REST\<close>,
  \<open>KAFKA\<close> and \<open>SOAP\<close>: these are the members of the type \<open>GatewayType\<close> and the values
  of the exported object \<open>GatewayTypes\<close>. The layout does not check the field \<open>type\<close> of
  a gateway: giving every gateway of a graph any kind \<open>k\<close> whatever changes nothing in the
  layout but the gateway recorded in each gateway layout.
\<close>

theorem GatewayType_values:
  "set (map snd GatewayTypes) = {''REST'', ''KAFKA'', ''SOAP''} \<and>
   (\<forall>s. GatewayType s \<longleftrightarrow> s \<in> set (map snd GatewayTypes)) \<and>
   layout (props\<lparr>GraphProps.microservice :=
             Some (ms\<lparr>Microservice.gateways :=
                        Some (map (\<lambda>gw. gw\<lparr>Gateway.type := k\<rparr>) gws)\<rparr>)\<rparr>) =
     map_option
       (\<lambda>l. \<lparr>gatewayLayouts =
               map (\<lambda>gl. gl\<lparr>gateway := (gateway gl)\<lparr>Gateway.type := k\<rparr>\<rparr>) (gatewayLayouts l)\<rparr>)
       (layout (props\<lparr>GraphProps.microservice :=
                  Some (ms\<lparr>Microservice.gateways := Some gws\<rparr>)\<rparr>))"
proof -
  have a: "set (map snd GatewayTypes) = {''REST'', ''KAFKA'', ''SOAP''}"
    by (simp add: GatewayTypes_def)
  have b: "\<forall>s. GatewayType s \<longleftrightarrow> s \<in> set (map snd GatewayTypes)"
    by (auto simp: GatewayTypes_def GatewayType_def)
  have c: "layout (props\<lparr>GraphProps.microservice :=
             Some (ms\<lparr>Microservice.gateways :=
                        Some (map (\<lambda>gw. gw\<lparr>Gateway.type := k\<rparr>) gws)\<rparr>)\<rparr>) =
     map_option
       (\<lambda>l. \<lparr>gatewayLayouts =
               map (\<lambda>gl. gl\<lparr>gateway := (gateway gl)\<lparr>Gateway.type := k\<rparr>\<rparr>) (gatewayLayouts l)\<rparr>)
       (layout (props\<lparr>GraphProps.microservice :=
                  Some (ms\<lparr>Microservice.gateways := Some gws\<rparr>)\<rparr>))"
    by (simp add: layout_def Let_def enumerate_map gatewayLayoutAt_type gatewayLayoutAt_gateway
        split_def gatewayLayoutAt_def centerX_def centerY_def inboundRingRadius_def
        outboundRingRadius_def ringGap_def)
  from a b c show ?thesis by simp
qed

text \<open>A gateway of kind \<open>EVENT_STREAM\<close> is laid out as the same gateway of kind \<open>REST\<close> is.\<close>

theorem GatewayType_values_witness:
  "layout \<lparr>GraphProps.microservice = Some
       \<lparr>Microservice.name = ''OrderService'', Microservice.id = ''ms1'',
        Microservice.gateways = Some
          [\<lparr>Gateway.type = ''EVENT_STREAM'', Gateway.name = ''PaymentGW'',
            Gateway.outbound = Some [''ChargeCard'', ''RefundCard''],
            Gateway.inbound = Some [''CreateOrder'']\<rparr>]\<rparr>,
     width = None, height = None, ringGapValue = None\<rparr> =
   map_option
     (\<lambda>l. \<lparr>gatewayLayouts =
             map (\<lambda>gl. gl\<lparr>gateway := (gateway gl)\<lparr>Gateway.type := ''EVENT_STREAM''\<rparr>\<rparr>)
               (gatewayLayouts l)\<rparr>)
     (layout \<lparr>GraphProps.microservice = Some
       \<lparr>Microservice.name = ''OrderService'', Microservice.id = ''ms1'',
        Microservice.gateways = Some
          [\<lparr>Gateway.type = ''REST'', Gateway.name = ''PaymentGW'',
            Gateway.outbound = Some [''ChargeCard'', ''RefundCard''],
            Gateway.inbound = Some [''CreateOrder'']\<rparr>]\<rparr>,
     width = None, height = None, ringGapValue = None\<rparr>)"
  using GatewayType_values
    [of "''EVENT_STREAM''"
        "[\<lparr>Gateway.type = ''REST'', Gateway.name = ''PaymentGW'',
           Gateway.outbound = Some [''ChargeCard'', ''RefundCard''],
           Gateway.inbound = Some [''CreateOrder'']\<rparr>]"
        "\<lparr>Microservice.name = ''OrderService'', Microservice.id = ''ms1'',
          Microservice.gateways = None\<rparr>"
        "\<lparr>GraphProps.microservice = None, width = None, height = None, ringGapValue = None\<rparr>"]
  by simp

text \<open>
  The claim as stated names \<open>EVENT_STREAM\<close> in the place of \<open>KAFKA\<close>: \<open>KAFKA\<close> is a
  gateway kind of the program outside the claimed set, and \<open>EVENT_STREAM\<close> is none.
\<close>

theorem GatewayType_values_counterexample:
  "GatewayType ''KAFKA'' \<and> ''KAFKA'' \<notin> {''REST'', ''EVENT_STREAM'', ''SOAP''} \<and>
   \<not> GatewayType ''EVENT_STREAM''"
  by (simp add: GatewayType_def)

section \<open>Focus and selection\<close>

subsection \<open>What the \<open>forEach\<close> loops collect\<close>


lemma fold_addInbound:
  "fold addInbound eps c =
     c\<lparr>ConnectedElements.inbound := ConnectedElements.inbound c \<union> set eps\<rparr>"
  by (induction eps arbitrary: c) (auto simp: addInbound_def)

lemma fold_addOutbound:
  "fold addOutbound eps c =
     c\<lparr>ConnectedElements.outbound := ConnectedElements.outbound c \<union> set eps\<rparr>"
  by (induction eps arbitrary: c) (auto simp: addOutbound_def)

text \<open>With gateway names that are pairwise distinct, \<open>find\<close> by name returns the gateway.\<close>

lemma find_distinct_name:
  "distinct (map Gateway.name gws) \<Longrightarrow> G \<in> set gws \<Longrightarrow>
     find (\<lambda>g. Gateway.name g = Gateway.name G) gws = Some G"
  by (induction gws) (auto simp: image_iff)

subsection \<open>Focus on a gateway\<close>

text \<open>
  Claim C4, as amended. For every graph whose gateway names are pairwise distinct and every
  gateway \<open>G\<close> of it: focusing \<open>G\<close> yields the connected set with the root, with \<open>G\<close> as
  its only gateway, and with exactly the inbound and the outbound endpoint names of \<open>G\<close>;
  no other gateway of the graph is in it.
\<close>

theorem getConnectedElements_gateway:
  assumes "Microservice.gateways ms = Some gws"
    and "G \<in> set gws"
    and "distinct (map Gateway.name gws)"
  shows "(\<exists>c. getConnectedElements
                (Some \<lparr>ElementRef.type = gateway_type, ElementRef.name = Gateway.name G\<rparr>)
                (Some ms) = Some c \<and>
              c = \<lparr>ConnectedElements.microservice = True,
                   ConnectedElements.gateways = {Gateway.name G},
                   ConnectedElements.inbound = set (orEmpty (Gateway.inbound G)),
                   ConnectedElements.outbound = set (orEmpty (Gateway.outbound G))\<rparr> \<and>
              (\<forall>G' \<in> set gws. G' \<noteq> G \<longrightarrow> Gateway.name G' \<notin> ConnectedElements.gateways c))"
proof -
  have f: "find (\<lambda>g. Gateway.name g = Gateway.name G) gws = Some G"
    using assms(3) assms(2) by (rule find_distinct_name)
  have "getConnectedElements
          (Some \<lparr>ElementRef.type = gateway_type, ElementRef.name = Gateway.name G\<rparr>) (Some ms) =
        Some \<lparr>ConnectedElements.microservice = True,
              ConnectedElements.gateways = {Gateway.name G},
              ConnectedElements.inbound = set (orEmpty (Gateway.inbound G)),
              ConnectedElements.outbound = set (orEmpty (Gateway.outbound G))\<rparr>"
    by (simp add: getConnectedElements_def assms(1) orEmpty_def f fold_addInbound
        fold_addOutbound addGateway_def)
  moreover have "\<forall>G' \<in> set gws. G' \<noteq> G \<longrightarrow> Gateway.name G' \<noteq> Gateway.name G"
    using assms(2,3) by (auto simp: distinct_map inj_on_def)
  ultimately show ?thesis by simp
qed

text \<open>The gateway \<open>G\<close> with inbound \<open>A\<close>, \<open>B\<close> and outbound \<open>C\<close>, beside a second gateway.\<close>

theorem getConnectedElements_gateway_witness:
  "getConnectedElements (Some \<lparr>ElementRef.type = gateway_type, ElementRef.name = ''G''\<rparr>)
     (Some \<lparr>Microservice.name = ''root'', Microservice.id = ''ms1'',
            Microservice.gateways = Some
              [\<lparr>Gateway.type = ''SOAP'', Gateway.name = ''H'',
                Gateway.outbound = Some [''D''], Gateway.inbound = Some [''A'']\<rparr>,
               \<lparr>Gateway.type = ''REST'', Gateway.name = ''G'',
                Gateway.outbound = Some [''C''], Gateway.inbound = Some [''A'', ''B'']\<rparr>]\<rparr>) =
   Some \<lparr>ConnectedElements.microservice = True,
         ConnectedElements.gateways = {''G''},
         ConnectedElements.inbound = {''A'', ''B''},
         ConnectedElements.outbound = {''C''}\<rparr>"
  using getConnectedElements_gateway
    [of "\<lparr>Microservice.name = ''root'', Microservice.id = ''ms1'',
          Microservice.gateways = Some
            [\<lparr>Gateway.type = ''SOAP'', Gateway.name = ''H'',
              Gateway.outbound = Some [''D''], Gateway.inbound = Some [''A'']\<rparr>,
             \<lparr>Gateway.type = ''REST'', Gateway.name = ''G'',
              Gateway.outbound = Some [''C''], Gateway.inbound = Some [''A'', ''B'']\<rparr>]\<rparr>"
        "[\<lparr>Gateway.type = ''SOAP'', Gateway.name = ''H'',
           Gateway.outbound = Some [''D''], Gateway.inbound = Some [''A'']\<rparr>,
          \<lparr>Gateway.type = ''REST'', Gateway.name = ''G'',
           Gateway.outbound = Some [''C''], Gateway.inbound = Some [''A'', ''B'']\<rparr>]"
        "\<lparr>Gateway.type = ''REST'', Gateway.name = ''G'',
          Gateway.outbound = Some [''C''], Gateway.inbound = Some [''A'', ''B'']\<rparr>"]
  by (simp add: orEmpty_def)

text \<open>
  The claim as stated is for every graph. A focus is a role and a name, and the gateway is
  looked up by \<open>find\<close>, which returns the first gateway of that name: of two gateways
  named \<open>G\<close>, focusing the second yields the endpoints of the first.
\<close>

theorem getConnectedElements_gateway_counterexample:
  "getConnectedElements
     (Some \<lparr>ElementRef.type = gateway_type,
            ElementRef.name = Gateway.name
              \<lparr>Gateway.type = ''SOAP'', Gateway.name = ''G'',
               Gateway.outbound = Some [''D''], Gateway.inbound = Some [''B'']\<rparr>\<rparr>)
     (Some \<lparr>Microservice.name = ''root'', Microservice.id = ''ms1'',
            Microservice.gateways = Some
              [\<lparr>Gateway.type = ''REST'', Gateway.name = ''G'',
                Gateway.outbound = Some [''C''], Gateway.inbound = Some [''A'']\<rparr>,
               \<lparr>Gateway.type = ''SOAP'', Gateway.name = ''G'',
                Gateway.outbound = Some [''D''], Gateway.inbound = Some [''B'']\<rparr>]\<rparr>) =
   Some \<lparr>ConnectedElements.microservice = True,
         ConnectedElements.gateways = {''G''},
         ConnectedElements.inbound = {''A''},
         ConnectedElements.outbound = {''C''}\<rparr> \<and>
   set (orEmpty (Gateway.inbound
          \<lparr>Gateway.type = ''SOAP'', Gateway.name = ''G'',
           Gateway.outbound = Some [''D''], Gateway.inbound = Some [''B'']\<rparr>)) \<noteq> {''A''} \<and>
   set (orEmpty (Gateway.outbound
          \<lparr>Gateway.type = ''SOAP'', Gateway.name = ''G'',
           Gateway.outbound = Some [''D''], Gateway.inbound = Some [''B'']\<rparr>)) \<noteq> {''C''}"
  by (simp add: getConnectedElements_def orEmpty_def addGateway_def addInbound_def
      addOutbound_def)

subsection \<open>Focus on an inbound endpoint\<close>



subsection \<open>Clicking an element\<close>

lemma toggle_twice:
  "prev \<noteq> Some \<lparr>ElementRef.type = ty, ElementRef.name = element\<rparr> \<Longrightarrow>
     toggle element ty (toggle element ty prev) = None"
  by (cases prev) (auto simp: toggle_def)

lemma toggle_selected:
  "toggle element ty (Some \<lparr>ElementRef.type = ty, ElementRef.name = element\<rparr>) = None"
  by (simp add: toggle_def)

text \<open>
  Claim C8, as amended. For every element reference and every prior state in which that
  element is neither the selected nor the focused one, clicking it twice in a row leaves
  both the selected and the focused state unselected. Clicking an element that is already
  selected and focused clears both rather than re-selecting it.
\<close>

theorem handleClick_toggle:
  "(selectedElement s \<noteq> Some \<lparr>ElementRef.type = ty, ElementRef.name = element\<rparr> \<and>
    focusedElement s \<noteq> Some \<lparr>ElementRef.type = ty, ElementRef.name = element\<rparr> \<longrightarrow>
      selectedElement (handleClick element ty (handleClick element ty s)) = None \<and>
      focusedElement (handleClick element ty (handleClick element ty s)) = None) \<and>
   (selectedElement s = Some \<lparr>ElementRef.type = ty, ElementRef.name = element\<rparr> \<and>
    focusedElement s = Some \<lparr>ElementRef.type = ty, ElementRef.name = element\<rparr> \<longrightarrow>
      selectedElement (handleClick element ty s) = None \<and>
      focusedElement (handleClick element ty s) = None)"
  by (simp add: handleClick_def toggle_twice toggle_selected)

theorem handleClick_toggle_witness:
  "selectedElement (handleClick ''A'' inbound_type (handleClick ''A'' inbound_type
     \<lparr>hoveredElement = None, selectedElement = None,
      focusedElement = Some \<lparr>ElementRef.type = outbound_type, ElementRef.name = ''A''\<rparr>\<rparr>)) = None \<and>
   focusedElement (handleClick ''A'' inbound_type (handleClick ''A'' inbound_type
     \<lparr>hoveredElement = None, selectedElement = None,
      focusedElement = Some \<lparr>ElementRef.type = outbound_type, ElementRef.name = ''A''\<rparr>\<rparr>)) = None \<and>
   selectedElement (handleClick ''A'' gateway_type
     \<lparr>hoveredElement = None,
      selectedElement = Some \<lparr>ElementRef.type = gateway_type, ElementRef.name = ''A''\<rparr>,
      focusedElement = Some \<lparr>ElementRef.type = gateway_type, ElementRef.name = ''A''\<rparr>\<rparr>) = None \<and>
   focusedElement (handleClick ''A'' gateway_type
     \<lparr>hoveredElement = None,
      selectedElement = Some \<lparr>ElementRef.type = gateway_type, ElementRef.name = ''A''\<rparr>,
      focusedElement = Some \<lparr>ElementRef.type = gateway_type, ElementRef.name = ''A''\<rparr>\<rparr>) = None"
  using
    handleClick_toggle [of "\<lparr>hoveredElement = None, selectedElement = None,
        focusedElement = Some \<lparr>ElementRef.type = outbound_type, ElementRef.name = ''A''\<rparr>\<rparr>"
      inbound_type "''A''"]
    handleClick_toggle [of "\<lparr>hoveredElement = None,
        selectedElement = Some \<lparr>ElementRef.type = gateway_type, ElementRef.name = ''A''\<rparr>,
        focusedElement = Some \<lparr>ElementRef.type = gateway_type, ElementRef.name = ''A''\<rparr>\<rparr>"
      gateway_type "''A''"]
  by simp

text \<open>
  The claim as stated fails from a state in which the element is already selected: the
  first click clears the selection and the second click selects the element again.
\<close>

theorem handleClick_toggle_counterexample:
  "selectedElement (handleClick ''A'' gateway_type (handleClick ''A'' gateway_type
     \<lparr>hoveredElement = None,
      selectedElement = Some \<lparr>ElementRef.type = gateway_type, ElementRef.name = ''A''\<rparr>,
      focusedElement = Some \<lparr>ElementRef.type = gateway_type, ElementRef.name = ''A''\<rparr>\<rparr>)) =
     Some \<lparr>ElementRef.type = gateway_type, ElementRef.name = ''A''\<rparr> \<and>
   focusedElement (handleClick ''A'' gateway_type (handleClick ''A'' gateway_type
     \<lparr>hoveredElement = None,
      selectedElement = Some \<lparr>ElementRef.type = gateway_type, ElementRef.name = ''A''\<rparr>,
      focusedElement = Some \<lparr>ElementRef.type = gateway_type, ElementRef.name = ''A''\<rparr>\<rparr>)) \<noteq> None"
  by (simp add: handleClick_def toggle_def)

end
